theory Spec2Isabelle
  imports Main
begin

section \<open>Python strings\<close>

text \<open>
  A Python \<open>str\<close> is modelled as a \<^typ>\<open>string\<close>: a list of 8-bit characters. The
  endpoints only compare, search, lower-case, strip and concatenate text, so the model reads
  every character as one code point below 256 (Latin-1). On these, \<open>str.lower\<close> changes the
  letters A to Z and the letters from 0xC0 to 0xDE other than the multiplication sign 0xD7,
  each to the code point 32 above it.
\<close>

definition lower_char :: "char \<Rightarrow> char" where
  "lower_char c =
     (case map_of
             (zip (''ABCDEFGHIJKLMNOPQRSTUVWXYZ'' @
                 [CHR 0xC0, CHR 0xC1, CHR 0xC2, CHR 0xC3, CHR 0xC4, CHR 0xC5, CHR 0xC6, CHR 0xC7,
                  CHR 0xC8, CHR 0xC9, CHR 0xCA, CHR 0xCB, CHR 0xCC, CHR 0xCD, CHR 0xCE, CHR 0xCF,
                  CHR 0xD0, CHR 0xD1, CHR 0xD2, CHR 0xD3, CHR 0xD4, CHR 0xD5, CHR 0xD6, CHR 0xD8,
                  CHR 0xD9, CHR 0xDA, CHR 0xDB, CHR 0xDC, CHR 0xDD, CHR 0xDE])
                (''abcdefghijklmnopqrstuvwxyz'' @
                 [CHR 0xE0, CHR 0xE1, CHR 0xE2, CHR 0xE3, CHR 0xE4, CHR 0xE5, CHR 0xE6, CHR 0xE7,
                  CHR 0xE8, CHR 0xE9, CHR 0xEA, CHR 0xEB, CHR 0xEC, CHR 0xED, CHR 0xEE, CHR 0xEF,
                  CHR 0xF0, CHR 0xF1, CHR 0xF2, CHR 0xF3, CHR 0xF4, CHR 0xF5, CHR 0xF6, CHR 0xF8,
                  CHR 0xF9, CHR 0xFA, CHR 0xFB, CHR 0xFC, CHR 0xFD, CHR 0xFE])) c of
        Some l \<Rightarrow> l
      | None \<Rightarrow> c)"

definition lower :: "string \<Rightarrow> string" where
  "lower s = map lower_char s"

fun starts_with :: "string \<Rightarrow> string \<Rightarrow> bool" where
  "starts_with [] s = True"
| "starts_with (k # ks) [] = False"
| "starts_with (k # ks) (c # cs) = (k = c \<and> starts_with ks cs)"

text \<open>\<open>k in s\<close> on two strings: \<open>k\<close> occurs in \<open>s\<close> as a contiguous substring.\<close>

fun py_in_str :: "string \<Rightarrow> string \<Rightarrow> bool" where
  "py_in_str k [] = (k = [])"
| "py_in_str k (c # cs) = (starts_with k (c # cs) \<or> py_in_str k cs)"

text \<open>\<open>sep.join(xs)\<close> on a list of strings.\<close>

fun join :: "string \<Rightarrow> string list \<Rightarrow> string" where
  "join sep [] = []"
| "join sep [x] = x"
| "join sep (x # y # ys) = x @ sep @ join sep (y # ys)"

text \<open>
  \<open>str.strip()\<close>: the white space of \<open>str.isspace\<close> below 256 is tab, line feed, vertical
  tab, form feed, carriage return, the four separators 28 to 31, the space, the next-line
  control 0x85 and the no-break space 0xA0.
\<close>

definition is_space :: "char \<Rightarrow> bool" where
  "is_space c =
     (c \<in> set [CHR 0x09, CHR 0x0A, CHR 0x0B, CHR 0x0C, CHR 0x0D,
                CHR 0x1C, CHR 0x1D, CHR 0x1E, CHR 0x1F, CHR '' '',
                CHR 0x85, CHR 0xA0])"

definition strip :: "string \<Rightarrow> string" where
  "strip s = rev (dropWhile is_space (rev (dropWhile is_space s)))"

section \<open>The query classifier\<close>

text \<open>
  Lines 169 to 174 of \<open>server.py\<close>:
  \<^verbatim>\<open>
  query = request.query.lower()
  cricket_keywords = ['cricket', 'sports', 'match', 'game', 'wicket', 'yesterday']
  is_cricket_query = any(keyword in query for keyword in cricket_keywords)
  \<close>
\<close>

definition cricket_keywords :: "string list" where
  "cricket_keywords =
     [''cricket'', ''sports'', ''match'', ''game'', ''wicket'', ''yesterday'']"

definition is_cricket_query :: "string \<Rightarrow> bool" where
  "is_cricket_query query = list_ex (\<lambda>keyword. py_in_str keyword query) cricket_keywords"

text \<open>The classification of a request: the query is lower-cased first.\<close>

definition classify :: "string \<Rightarrow> bool" where
  "classify request_query = is_cricket_query (lower request_query)"

section \<open>The date of yesterday\<close>

text \<open>
  \<^verbatim>\<open>yesterday = (datetime.now() - timedelta(days=1)).strftime('%B %d, %Y')\<close>

  Only the calendar date of the clock reading reaches the text. \<open>datetime\<close> uses the proleptic
  Gregorian calendar with years 1 to 9999; one day before 0001-01-01 raises
  \<open>OverflowError\<close>, whose \<open>str\<close> is the \<open>Inl\<close> value.
\<close>

datatype date = Date (year: nat) (month: nat) (day: nat)

definition is_leap :: "nat \<Rightarrow> bool" where
  "is_leap y = (y mod 400 = 0 \<or> (y mod 4 = 0 \<and> y mod 100 \<noteq> 0))"

definition days_in_month :: "nat \<Rightarrow> nat \<Rightarrow> nat" where
  "days_in_month y m =
     (if m = 2 then (if is_leap y then 29 else 28)
      else if m = 4 \<or> m = 6 \<or> m = 9 \<or> m = 11 then 30
      else 31)"


definition minus_one_day :: "date \<Rightarrow> string + date" where
  "minus_one_day d =
     (if 1 < day d then Inr (Date (year d) (month d) (day d - 1))
      else if 1 < month d
        then Inr (Date (year d) (month d - 1) (days_in_month (year d) (month d - 1)))
      else if 1 < year d then Inr (Date (year d - 1) 12 31)
      else Inl ''date value out of range'')"

definition month_name :: "nat \<Rightarrow> string" where
  "month_name m =
     (if m = 1 then ''January'' else if m = 2 then ''February''
      else if m = 3 then ''March'' else if m = 4 then ''April''
      else if m = 5 then ''May'' else if m = 6 then ''June''
      else if m = 7 then ''July'' else if m = 8 then ''August''
      else if m = 9 then ''September'' else if m = 10 then ''October''
      else if m = 11 then ''November'' else ''December'')"

definition digit_char :: "nat \<Rightarrow> char" where
  "digit_char n = ''0123456789'' ! (n mod 10)"

fun decimal :: "nat \<Rightarrow> string" where
  "decimal n = (if n < 10 then [digit_char n] else decimal (n div 10) @ [digit_char n])"

declare decimal.simps [simp del]

text \<open>\<open>%d\<close> is the day in two digits, \<open>%Y\<close> the year in decimal, \<open>%B\<close> the English month.\<close>

definition strftime_B_d_Y :: "date \<Rightarrow> string" where
  "strftime_B_d_Y d =
     month_name (month d) @ '' '' @
     (if day d < 10 then ''0'' else '''') @ decimal (day d) @ '', '' @ decimal (year d)"




definition yesterday_of :: "date \<Rightarrow> string + string" where
  "yesterday_of now =
     (case minus_one_day now of Inl e \<Rightarrow> Inl e | Inr d \<Rightarrow> Inr (strftime_B_d_Y d))"

section \<open>JSON values and the Python operations the endpoint applies to them\<close>

text \<open>
  \<open>response.json()\<close> returns whatever JSON document the provider sent, so the model keeps
  Python's dynamic typing: an operation on a value of the wrong type raises. A \<open>JDict\<close>
  holds the items of a Python dict (keys distinct); numbers enter the code only through
  their truth value.
\<close>

datatype json =
    JNull
  | JBool bool
  | JNum int
  | JStr string
  | JList "json list"
  | JDict "(string \<times> json) list"

datatype py_error = TypeError | KeyError

text \<open>\<open>k in x\<close> for a string \<open>k\<close>: key of a dict, element of a list, substring of a string.\<close>

fun py_in :: "string \<Rightarrow> json \<Rightarrow> py_error + bool" where
  "py_in k (JDict items) = Inr (k \<in> set (map fst items))"
| "py_in k (JList xs) = Inr (JStr k \<in> set xs)"
| "py_in k (JStr s) = Inr (py_in_str k s)"
| "py_in k JNull = Inl TypeError"
| "py_in k (JBool b) = Inl TypeError"
| "py_in k (JNum n) = Inl TypeError"

text \<open>\<open>x[k]\<close> for a string \<open>k\<close>: only a dict can be indexed by a string.\<close>

fun py_getitem :: "json \<Rightarrow> string \<Rightarrow> py_error + json" where
  "py_getitem (JDict items) k =
     (case map_of items k of None \<Rightarrow> Inl KeyError | Some v \<Rightarrow> Inr v)"
| "py_getitem JNull k = Inl TypeError"
| "py_getitem (JBool b) k = Inl TypeError"
| "py_getitem (JNum n) k = Inl TypeError"
| "py_getitem (JStr s) k = Inl TypeError"
| "py_getitem (JList xs) k = Inl TypeError"

fun truthy :: "json \<Rightarrow> bool" where
  "truthy JNull = False"
| "truthy (JBool b) = b"
| "truthy (JNum n) = (n \<noteq> 0)"
| "truthy (JStr s) = (s \<noteq> [])"
| "truthy (JList xs) = (xs \<noteq> [])"
| "truthy (JDict items) = (items \<noteq> [])"

text \<open>
  The values that \<open>for result in x[:3]\<close> runs over: the first three elements of a list,
  the first three one-character strings of a string; anything else cannot be sliced.
\<close>

fun py_slice3 :: "json \<Rightarrow> py_error + json list" where
  "py_slice3 (JList xs) = Inr (take 3 xs)"
| "py_slice3 (JStr s) = Inr (map (\<lambda>c. JStr [c]) (take 3 s))"
| "py_slice3 JNull = Inl TypeError"
| "py_slice3 (JBool b) = Inl TypeError"
| "py_slice3 (JNum n) = Inl TypeError"
| "py_slice3 (JDict items) = Inl TypeError"

text \<open>\<open>sep.join(xs)\<close> raises unless every element is a string.\<close>

fun str_items :: "json list \<Rightarrow> py_error + string list" where
  "str_items [] = Inr []"
| "str_items (JStr s # xs) =
     (case str_items xs of Inl e \<Rightarrow> Inl e | Inr ss \<Rightarrow> Inr (s # ss))"
| "str_items (x # xs) = Inl TypeError"

definition py_join :: "string \<Rightarrow> json list \<Rightarrow> py_error + string" where
  "py_join sep xs = (case str_items xs of Inl e \<Rightarrow> Inl e | Inr ss \<Rightarrow> Inr (join sep ss))"

section \<open>The sports results, from the provider's document\<close>

text \<open>
  The loop of lines 198 to 200 (and again 274 to 276):
  \<^verbatim>\<open>
  for result in results['organic_results'][:3]:
      if 'snippet' in result:
          cricket_info.append(result['snippet'])
  \<close>
\<close>

fun collect_snippets :: "json list \<Rightarrow> json list \<Rightarrow> py_error + json list" where
  "collect_snippets [] cricket_info = Inr cricket_info"
| "collect_snippets (result # rest) cricket_info =
     (case py_in ''snippet'' result of
        Inl e \<Rightarrow> Inl e
      | Inr has_snippet \<Rightarrow>
          if has_snippet
          then (case py_getitem result ''snippet'' of
                  Inl e \<Rightarrow> Inl e
                | Inr snippet \<Rightarrow> collect_snippets rest (cricket_info @ [snippet]))
          else collect_snippets rest cricket_info)"

definition here_are :: "string \<Rightarrow> string" where
  "here_are yesterday = ''Here are the cricket results from '' @ yesterday @ '':\<newline>\<newline>''"

definition no_detailed_results :: "string \<Rightarrow> string" where
  "no_detailed_results yesterday =
     ''No detailed cricket results found for '' @ yesterday @
     ''. Please try searching for a different date.''"

definition no_results :: "string \<Rightarrow> string" where
  "no_results yesterday =
     ''No cricket results found for '' @ yesterday @
     ''. Please try searching for a different date.''"

definition unable_to_fetch :: string where
  "unable_to_fetch = ''Unable to fetch cricket results. Please try again later.''"

definition unable_at_the_moment :: string where
  "unable_at_the_moment =
     ''Unable to access sena.services at the moment. Please try again later or visit the website directly.''"

definition unable_to_access :: string where
  "unable_to_access =
     ''Unable to access sena.services. Please try again later or visit the website directly.''"

text \<open>
  The condition \<open>'organic_results' in results and results['organic_results']\<close> of lines
  195 and 272: \<open>Inr None\<close> when it is false, \<open>Inr (Some cricket_info)\<close> with the collected
  snippets when it is true, \<open>Inl\<close> when an operation raises on the way.
\<close>

definition organic_snippets :: "json \<Rightarrow> py_error + json list option" where
  "organic_snippets results =
     (case py_in ''organic_results'' results of
        Inl e \<Rightarrow> Inl e
      | Inr present \<Rightarrow>
          if present
          then (case py_getitem results ''organic_results'' of
                  Inl e \<Rightarrow> Inl e
                | Inr organic \<Rightarrow>
                    if truthy organic
                    then (case py_slice3 organic of
                            Inl e \<Rightarrow> Inl e
                          | Inr top3 \<Rightarrow>
                              (case collect_snippets top3 [] of
                                 Inl e \<Rightarrow> Inl e
                               | Inr cricket_info \<Rightarrow> Inr (Some cricket_info)))
                    else Inr None)
          else Inr None)"

text \<open>Lines 195 to 207: the text of the sports path, inside its \<open>try\<close>.\<close>

definition sports_try :: "string \<Rightarrow> json \<Rightarrow> py_error + string" where
  "sports_try yesterday results =
     (case organic_snippets results of
        Inl e \<Rightarrow> Inl e
      | Inr None \<Rightarrow> Inr (no_results yesterday)
      | Inr (Some cricket_info) \<Rightarrow>
          if cricket_info \<noteq> []
          then (case py_join ''\<newline>\<newline>'' cricket_info of
                  Inl e \<Rightarrow> Inl e
                | Inr joined \<Rightarrow> Inr (here_are yesterday @ joined))
          else Inr (no_detailed_results yesterday))"

text \<open>Lines 272 to 282: the same steps in the fallback of the site path, with its own texts.\<close>

definition fallback_try :: "string \<Rightarrow> json \<Rightarrow> py_error + string" where
  "fallback_try yesterday results =
     (case organic_snippets results of
        Inl e \<Rightarrow> Inl e
      | Inr None \<Rightarrow> Inr unable_at_the_moment
      | Inr (Some cricket_info) \<Rightarrow>
          if cricket_info \<noteq> []
          then (case py_join ''\<newline>\<newline>'' cricket_info of
                  Inl e \<Rightarrow> Inl e
                | Inr joined \<Rightarrow> Inr (here_are yesterday @ joined))
          else Inr unable_at_the_moment)"

section \<open>The parsed page and the extraction of the services\<close>

text \<open>
  The tree that \<open>BeautifulSoup(response.text, 'html.parser')\<close> builds: a string, or a tag
  with its name, its \<open>class\<close> attribute (absent, or the list of its values: \<open>class\<close> is
  multi-valued) and its contents. The extraction reads no other attribute. The root of the
  tree is the soup itself.
\<close>

datatype node =
    Text string
  | Tag (tag_name: string) (tag_class: "string list option") (contents: "node list")

text \<open>The descendants of a node in document order, as \<open>find_all\<close> and \<open>find\<close> visit them.\<close>

fun descendants :: "node \<Rightarrow> node list" where
  "descendants (Text s) = []"
| "descendants (Tag n c kids) = concat (map (\<lambda>k. k # descendants k) kids)"

fun is_named :: "string list \<Rightarrow> node \<Rightarrow> bool" where
  "is_named names (Text s) = False"
| "is_named names (Tag n c kids) = (n \<in> set names)"

text \<open>\<open>tag.find_all(names)\<close>.\<close>

definition find_all :: "string list \<Rightarrow> node \<Rightarrow> node list" where
  "find_all names root = filter (is_named names) (descendants root)"

text \<open>
  A function given as \<open>class_\<close> is tried on each value of the attribute and then on the
  values joined by spaces; on a tag without the attribute it is called with \<open>None\<close>.
\<close>

fun class_matches :: "(string option \<Rightarrow> bool) \<Rightarrow> node \<Rightarrow> bool" where
  "class_matches f (Text s) = False"
| "class_matches f (Tag n None kids) = f None"
| "class_matches f (Tag n (Some vs) kids) =
     (list_ex (\<lambda>v. f (Some v)) vs \<or> f (Some (join '' '' vs)))"

text \<open>\<open>tag.find_all(names, class_=f)\<close>.\<close>

definition find_all_class :: "string list \<Rightarrow> (string option \<Rightarrow> bool) \<Rightarrow> node \<Rightarrow> node list" where
  "find_all_class names f root =
     filter (\<lambda>n. is_named names n \<and> class_matches f n) (descendants root)"

text \<open>\<open>tag.find(name)\<close>: the first descendant of that name, or \<open>None\<close>.\<close>

definition find_first :: "string \<Rightarrow> node \<Rightarrow> node option" where
  "find_first name root =
     (case find_all [name] root of [] \<Rightarrow> None | n # ns \<Rightarrow> Some n)"

text \<open>
  \<open>tag.get_text(strip=True)\<close>: the strings below the tag in document order, each stripped,
  the empty ones dropped, concatenated.
\<close>

fun all_strings :: "node \<Rightarrow> string list" where
  "all_strings (Text s) = [s]"
| "all_strings (Tag n c kids) = concat (map all_strings kids)"

definition get_text_strip :: "node \<Rightarrow> string" where
  "get_text_strip n = concat (filter (\<lambda>s. s \<noteq> []) (map strip (all_strings n)))"

text \<open>
  Line 224: \<^verbatim>\<open>lambda x: x and ('service' in x.lower() or 'services' in x.lower())\<close>,
  read as a truth value.
\<close>

fun service_class :: "string option \<Rightarrow> bool" where
  "service_class None = False"
| "service_class (Some x) =
     (x \<noteq> [] \<and> (py_in_str ''service'' (lower x) \<or> py_in_str ''services'' (lower x)))"

text \<open>
  Lines 229 to 232, the inner loop over the items of one section:
  \<^verbatim>\<open>
  for item in service_items:
      text = item.get_text(strip=True)
      if text and len(text) > 10:
          services.append(text)
  \<close>
\<close>

fun items_loop :: "node list \<Rightarrow> string list \<Rightarrow> string list" where
  "items_loop [] services = services"
| "items_loop (item # rest) services =
     (let text = get_text_strip item
      in if text \<noteq> [] \<and> 10 < length text
         then items_loop rest (services @ [text])
         else items_loop rest services)"

text \<open>Lines 226 to 232, the loop over the sections.\<close>

fun sections_loop :: "node list \<Rightarrow> string list \<Rightarrow> string list" where
  "sections_loop [] services = services"
| "sections_loop (section # rest) services =
     sections_loop rest (items_loop (find_all [''h2'', ''h3'', ''li'', ''p''] section) services)"

text \<open>Lines 239 to 242, the loop over the paragraphs of the main content.\<close>

fun paragraphs_loop :: "node list \<Rightarrow> string list \<Rightarrow> string list" where
  "paragraphs_loop [] services = services"
| "paragraphs_loop (p # rest) services =
     (let text = get_text_strip p
      in if text \<noteq> [] \<and> 20 < length text \<and>
            (py_in_str ''service'' (lower text) \<or> py_in_str ''offer'' (lower text))
         then paragraphs_loop rest (services @ [text])
         else paragraphs_loop rest services)"

text \<open>
  Line 236: \<^verbatim>\<open>soup.find('main') or soup.find('article') or soup.find('body')\<close>. A tag is
  always true, so \<open>or\<close> moves on only from \<open>None\<close>.
\<close>

definition main_content :: "node \<Rightarrow> node option" where
  "main_content soup =
     (case find_first ''main'' soup of
        Some m \<Rightarrow> Some m
      | None \<Rightarrow>
          (case find_first ''article'' soup of
             Some a \<Rightarrow> Some a
           | None \<Rightarrow> find_first ''body'' soup))"

definition default_services :: "string list" where
  "default_services =
     [''Web Development'', ''Mobile App Development'', ''Cloud Services'',
      ''AI and Machine Learning'', ''Digital Marketing'', ''IT Consulting'']"

text \<open>Lines 221 to 253: the list \<open>services\<close> with which the formatting starts.\<close>

definition extract_services :: "node \<Rightarrow> string list" where
  "extract_services soup =
     (let service_sections = find_all_class [''section'', ''div''] service_class soup;
          services1 = sections_loop service_sections [];
          services2 =
            (if services1 = []
             then (case main_content soup of
                     Some m \<Rightarrow> paragraphs_loop (find_all [''p''] m) services1
                   | None \<Rightarrow> services1)
             else services1)
      in if services2 = [] then default_services else services2)"

text \<open>Lines 256 and 257.\<close>

definition services_text :: "string list \<Rightarrow> string" where
  "services_text services =
     ''Sena provides the following services:\<newline>'' @
     join ''\<newline>'' (map (\<lambda>service. ''- '' @ service) services) @
     ''\<newline>\<newline>For more detailed information, please visit https://sena.services directly.''"

section \<open>The world outside the process\<close>

text \<open>
  The endpoints talk to a search provider, to the site, to the speech and transcription
  services, to the clock and to the file system. What these answer is not decided by the
  code, so it is a parameter of the model: an \<open>env\<close> holds, for one request, the
  configuration and the outcome of every outside call. An outcome is \<open>Inr\<close> the value
  returned, or \<open>Inl\<close> the \<open>str\<close> of the exception raised.
\<close>

record serp_params =
  sp_api_key :: "string option"
  sp_q :: string
  sp_engine :: string
  sp_num :: int

datatype call =
    SerpCall serp_params
  | SiteCall string
  | SpeechCall string string string
  | TranscriptionCall string string

text \<open>The files of the temporary directory, and the outside calls made so far.\<close>

record world =
  files :: "string \<rightharpoonup> string"
  calls :: "call list"

record env =
  SERPAPI_KEY :: "string option"
  TEMP_DIR :: string
  now_date :: date
  now_stamp :: string
  serp_get :: "serp_params \<Rightarrow> string + json"
  site_get :: "string \<Rightarrow> string + (int \<times> string)"
  parse_html :: "string \<Rightarrow> string + node"
  speech_create :: "string \<Rightarrow> string + string"
  stream_fault :: "(string \<times> string option) option"
  upload_read :: "string + string"
  open_write_fault :: "string option"
  write_fault :: "string option"
  read_fault :: "string option"
  remove_fault :: "string option"
  transcriptions_create :: "string \<Rightarrow> string + string"

text \<open>
  \<^item> \<open>now_date\<close> is the date of the \<open>datetime.now()\<close> read for \<open>yesterday\<close>, \<open>now_stamp\<close>
    the \<open>datetime.now().strftime('%Y%m%d_%H%M%S')\<close> of the temporary file's name;
  \<^item> \<open>serp_get params\<close> is the outcome of \<open>requests.get('https://serpapi.com/search',
    params=params)\<close> followed by \<open>response.json()\<close>;
  \<^item> \<open>site_get url\<close> is the outcome of \<open>requests.get(url)\<close>: the status code and the body;
  \<^item> \<open>parse_html\<close> is \<open>BeautifulSoup(text, 'html.parser')\<close>;
  \<^item> \<open>speech_create input\<close> is the outcome of building the client and of
    \<open>client.audio.speech.create(model="tts-1", voice="alloy", input=input)\<close>: the audio;
  \<^item> \<open>stream_fault\<close>, when set, makes \<open>stream_to_file\<close> raise, leaving the given content at
    the path (or no file); \<open>open_write_fault\<close>, \<open>write_fault\<close>, \<open>read_fault\<close> and
    \<open>remove_fault\<close>, when set, make the operation of that name raise;
  \<^item> \<open>upload_read\<close> is the outcome of \<open>await file.read()\<close>;
  \<^item> \<open>transcriptions_create audio\<close> is the outcome of building the client and of
    \<open>client.audio.transcriptions.create(model="whisper-1", file=f)\<close>: \<open>transcript.text\<close>.
\<close>

text \<open>\<open>os.path.join(a, b)\<close> of \<open>posixpath\<close>.\<close>

definition path_join :: "string \<Rightarrow> string \<Rightarrow> string" where
  "path_join a b =
     (if starts_with ''/'' b then b
      else if a = [] \<or> starts_with ''/'' (rev a) then a @ b
      else a @ ''/'' @ b)"

definition no_such_file :: "string \<Rightarrow> string" where
  "no_such_file path = ''[Errno 2] No such file or directory: '' @ [CHR 0x27] @ path @ [CHR 0x27]"

text \<open>Reading a whole file: \<open>open(path, 'rb')\<close> and what is read from it.\<close>

definition read_file :: "env \<Rightarrow> string \<Rightarrow> world \<Rightarrow> string + string" where
  "read_file env path w =
     (case read_fault env of
        Some e \<Rightarrow> Inl e
      | None \<Rightarrow> (case files w path of None \<Rightarrow> Inl (no_such_file path) | Some data \<Rightarrow> Inr data))"

text \<open>\<open>os.remove(path)\<close>: the exception raised, if any, and the world after.\<close>

definition os_remove :: "env \<Rightarrow> string \<Rightarrow> world \<Rightarrow> string option \<times> world" where
  "os_remove env path w =
     (case remove_fault env of
        Some e \<Rightarrow> (Some e, w)
      | None \<Rightarrow>
          (case files w path of
             None \<Rightarrow> (Some (no_such_file path), w)
           | Some data \<Rightarrow> (None, w\<lparr>files := (files w)(path := None)\<rparr>)))"

text \<open>\<open>speech_response.stream_to_file(path)\<close>.\<close>

definition stream_to_file :: "env \<Rightarrow> string \<Rightarrow> string \<Rightarrow> world \<Rightarrow> string option \<times> world" where
  "stream_to_file env path audio w =
     (case stream_fault env of
        None \<Rightarrow> (None, w\<lparr>files := (files w)(path \<mapsto> audio)\<rparr>)
      | Some (e, None) \<Rightarrow> (Some e, w)
      | Some (e, Some part) \<Rightarrow> (Some e, w\<lparr>files := (files w)(path \<mapsto> part)\<rparr>))"

text \<open>\<open>os.path.getsize(path)\<close>.\<close>

definition getsize :: "string \<Rightarrow> world \<Rightarrow> string + nat" where
  "getsize path w =
     (case files w path of None \<Rightarrow> Inl (no_such_file path) | Some data \<Rightarrow> Inr (length data))"

text \<open>\<open>base64.b64encode(data).decode('utf-8')\<close>.\<close>

definition b64_digit :: "nat \<Rightarrow> char" where
  "b64_digit n =
     ''ABCDEFGHIJKLMNOPQRSTUVWXYZabcdefghijklmnopqrstuvwxyz0123456789+/'' ! n"

fun b64encode :: "string \<Rightarrow> string" where
  "b64encode [] = []"
| "b64encode [a] =
     (let x = (of_char a :: nat)
      in [b64_digit (x div 4), b64_digit ((x mod 4) * 16), CHR ''='', CHR ''=''])"
| "b64encode [a, b] =
     (let x = (of_char a :: nat); y = (of_char b :: nat)
      in [b64_digit (x div 4), b64_digit ((x mod 4) * 16 + y div 16),
          b64_digit ((y mod 16) * 4), CHR ''=''])"
| "b64encode (a # b # c # rest) =
     (let x = (of_char a :: nat); y = (of_char b :: nat); z = (of_char c :: nat)
      in [b64_digit (x div 4), b64_digit ((x mod 4) * 16 + y div 16),
          b64_digit ((y mod 16) * 4 + z div 64), b64_digit (z mod 64)] @ b64encode rest)"

section \<open>The search endpoint\<close>

text \<open>
  The JSON body of a response, by its keys, and the status code. \<open>JSONResponse(content=...)\<close>
  has status 200.
\<close>

record response =
  status_code :: nat
  body_text :: "string option"
  body_audio :: "string option"
  body_error :: "string option"

text \<open>Lines 180 to 193 and 262 to 271: the request to the search provider.\<close>

definition search_query :: "string \<Rightarrow> string" where
  "search_query yesterday = ''cricket match results '' @ yesterday @ '' scorecard highlights''"

definition serp_search :: "env \<Rightarrow> string \<Rightarrow> world \<Rightarrow> (string + json) \<times> world" where
  "serp_search env yesterday w =
     (let params = \<lparr>sp_api_key = SERPAPI_KEY env, sp_q = search_query yesterday,
                     sp_engine = ''google'', sp_num = 5\<rparr>
      in (serp_get env params, w\<lparr>calls := calls w @ [SerpCall params]\<rparr>))"

text \<open>
  Lines 176 to 210, the sports path. The date is computed outside the inner \<open>try\<close>: its
  exception reaches the handler of line 320 (\<open>Inl\<close>). Everything from the request on is
  inside, and ends in the text of line 210 when it raises.
\<close>

definition sports_path :: "env \<Rightarrow> world \<Rightarrow> (string + string) \<times> world" where
  "sports_path env w =
     (case yesterday_of (now_date env) of
        Inl e \<Rightarrow> (Inl e, w)
      | Inr yesterday \<Rightarrow>
          (case serp_search env yesterday w of
             (Inl e, w1) \<Rightarrow> (Inr unable_to_fetch, w1)
           | (Inr results, w1) \<Rightarrow>
               (case sports_try yesterday results of
                  Inl e \<Rightarrow> (Inr unable_to_fetch, w1)
                | Inr response_text \<Rightarrow> (Inr response_text, w1))))"

text \<open>
  Lines 261 to 282, the fallback of the site path. It stands inside the \<open>try\<close> of line 214,
  so every exception, that of the date too, ends in the text of line 285 (\<open>Inl\<close> here, for
  the caller to replace).
\<close>

definition fallback :: "env \<Rightarrow> world \<Rightarrow> (unit + string) \<times> world" where
  "fallback env w =
     (case yesterday_of (now_date env) of
        Inl e \<Rightarrow> (Inl (), w)
      | Inr yesterday \<Rightarrow>
          (case serp_search env yesterday w of
             (Inl e, w1) \<Rightarrow> (Inl (), w1)
           | (Inr results, w1) \<Rightarrow>
               (case fallback_try yesterday results of
                  Inl e \<Rightarrow> (Inl (), w1)
                | Inr response_text \<Rightarrow> (Inr response_text, w1))))"

text \<open>Lines 213 to 285, the site path.\<close>

definition site_path :: "env \<Rightarrow> world \<Rightarrow> string \<times> world" where
  "site_path env w =
     (let w1 = w\<lparr>calls := calls w @ [SiteCall ''https://sena.services'']\<rparr>
      in case site_get env ''https://sena.services'' of
           Inl e \<Rightarrow> (unable_to_access, w1)
         | Inr (status, html) \<Rightarrow>
             if status = 200
             then (case parse_html env html of
                     Inl e \<Rightarrow> (unable_to_access, w1)
                   | Inr soup \<Rightarrow> (services_text (extract_services soup), w1))
             else (case fallback env w1 of
                     (Inl u, w2) \<Rightarrow> (unable_to_access, w2)
                   | (Inr response_text, w2) \<Rightarrow> (response_text, w2)))"

text \<open>Lines 169 to 285: the text of the answer, or the exception that leaves the branches.\<close>

definition retrieve :: "env \<Rightarrow> string \<Rightarrow> world \<Rightarrow> (string + string) \<times> world" where
  "retrieve env request_query w =
     (let query = lower request_query
      in if is_cricket_query query then sports_path env w
         else (case site_path env w of (response_text, w1) \<Rightarrow> (Inr response_text, w1)))"

definition audio_failed :: "string \<Rightarrow> response" where
  "audio_failed response_text =
     \<lparr>status_code = 200, body_text = Some response_text, body_audio = None,
      body_error = Some ''Failed to generate audio response''\<rparr>"

text \<open>Lines 288 to 318: the speech of the answer.\<close>

definition synthesize :: "env \<Rightarrow> string \<Rightarrow> world \<Rightarrow> response \<times> world" where
  "synthesize env response_text w =
     (let w1 = w\<lparr>calls := calls w @ [SpeechCall ''tts-1'' ''alloy'' response_text]\<rparr>
      in case speech_create env response_text of
           Inl e \<Rightarrow> (audio_failed response_text, w1)
         | Inr audio \<Rightarrow>
             (let temp_audio_path =
                    path_join (TEMP_DIR env) (''response_'' @ now_stamp env @ ''.mp3'')
              in case stream_to_file env temp_audio_path audio w1 of
                   (Some e, w2) \<Rightarrow> (audio_failed response_text, w2)
                 | (None, w2) \<Rightarrow>
                     (case read_file env temp_audio_path w2 of
                        Inl e \<Rightarrow> (audio_failed response_text, w2)
                      | Inr audio_data \<Rightarrow>
                          (let audio_base64 = b64encode audio_data
                           in case os_remove env temp_audio_path w2 of
                                (Some e, w3) \<Rightarrow> (audio_failed response_text, w3)
                              | (None, w3) \<Rightarrow>
                                  (\<lparr>status_code = 200, body_text = Some response_text,
                                    body_audio = Some audio_base64, body_error = None\<rparr>,
                                   w3)))))"

definition unexpected_error :: "string \<Rightarrow> response" where
  "unexpected_error e =
     \<lparr>status_code = 500, body_text = None, body_audio = None,
      body_error = Some (''Unexpected error: '' @ e)\<rparr>"

text \<open>Lines 166 to 325: \<open>POST /api/search\<close>.\<close>

definition search :: "env \<Rightarrow> string \<Rightarrow> world \<Rightarrow> response \<times> world" where
  "search env request_query w =
     (case retrieve env request_query w of
        (Inl e, w1) \<Rightarrow> (unexpected_error e, w1)
      | (Inr response_text, w1) \<Rightarrow> synthesize env response_text w1)"

section \<open>The transcription endpoint\<close>

definition failure :: "string \<Rightarrow> response" where
  "failure message =
     \<lparr>status_code = 500, body_text = None, body_audio = None, body_error = Some message\<rparr>"

text \<open>
  Lines 110 to 121, the body of the first \<open>try\<close>: the exception raised, if any, and the
  world after. \<open>open(temp_path, 'wb')\<close> creates the file, empty, before the upload is read.
\<close>

definition save_upload :: "env \<Rightarrow> string \<Rightarrow> world \<Rightarrow> string option \<times> world" where
  "save_upload env temp_path w =
     (case open_write_fault env of
        Some e \<Rightarrow> (Some e, w)
      | None \<Rightarrow>
          (let w1 = w\<lparr>files := (files w)(temp_path \<mapsto> [])\<rparr>
           in case upload_read env of
                Inl e \<Rightarrow> (Some e, w1)
              | Inr content \<Rightarrow>
                  if content = [] then (Some ''Empty file received'', w1)
                  else (case write_fault env of
                          Some e \<Rightarrow> (Some e, w1)
                        | None \<Rightarrow>
                            (let w2 = w1\<lparr>files := (files w1)(temp_path \<mapsto> content)\<rparr>
                             in case getsize temp_path w2 of
                                  Inl e \<Rightarrow> (Some e, w2)
                                | Inr file_size \<Rightarrow>
                                    if file_size = 0 then (Some ''File is empty'', w2)
                                    else (None, w2)))))"

text \<open>Lines 133 to 139, the body of the second \<open>try\<close>.\<close>

definition transcribe_file :: "env \<Rightarrow> string \<Rightarrow> world \<Rightarrow> (string + string) \<times> world" where
  "transcribe_file env temp_path w =
     (case read_file env temp_path w of
        Inl e \<Rightarrow> (Inl e, w)
      | Inr audio \<Rightarrow>
          (transcriptions_create env audio,
           w\<lparr>calls := calls w @ [TranscriptionCall ''whisper-1'' audio]\<rparr>))"

text \<open>Lines 150 to 155, the \<open>finally\<close> of the second \<open>try\<close>; its own exception is only printed.\<close>

definition clean_up :: "env \<Rightarrow> string \<Rightarrow> world \<Rightarrow> world" where
  "clean_up env temp_path w =
     (if files w temp_path \<noteq> None then snd (os_remove env temp_path w) else w)"

text \<open>Lines 100 to 164: \<open>POST /api/transcribe\<close>.\<close>

definition transcribe_audio :: "env \<Rightarrow> world \<Rightarrow> response \<times> world" where
  "transcribe_audio env w =
     (let temp_path = path_join (TEMP_DIR env) (''temp_audio_'' @ now_stamp env @ ''.wav'')
      in case save_upload env temp_path w of
           (Some e, w1) \<Rightarrow> (failure (''Error saving file: '' @ e), w1)
         | (None, w1) \<Rightarrow>
             (case transcribe_file env temp_path w1 of
                (Inl e, w2) \<Rightarrow>
                  (failure (''Error during transcription: '' @ e), clean_up env temp_path w2)
              | (Inr transcript_text, w2) \<Rightarrow>
                  (\<lparr>status_code = 200, body_text = Some transcript_text, body_audio = None,
                    body_error = None\<rparr>,
                   clean_up env temp_path w2)))"

section \<open>Provider documents and example requests\<close>

text \<open>
  The documents the provider sends on success hold, under \<open>organic_results\<close>, a list of
  results; a result is a dict, and its snippet, when it bears one, is a string.
\<close>

fun is_result :: "json \<Rightarrow> bool" where
  "is_result (JDict items) =
     (case map_of items ''snippet'' of
        None \<Rightarrow> True
      | Some (JStr s) \<Rightarrow> True
      | Some other \<Rightarrow> False)"
| "is_result other = False"

fun snippet_of :: "json \<Rightarrow> string option" where
  "snippet_of (JDict items) =
     (case map_of items ''snippet'' of Some (JStr s) \<Rightarrow> Some s | other \<Rightarrow> None)"
| "snippet_of other = None"

text \<open>The parameters of the one request that the code sends to the provider.\<close>

definition cricket_params :: "env \<Rightarrow> string \<Rightarrow> serp_params" where
  "cricket_params env yesterday =
     \<lparr>sp_api_key = SERPAPI_KEY env, sp_q = search_query yesterday,
      sp_engine = ''google'', sp_num = 5\<rparr>"

definition example_organic :: "json list" where
  "example_organic =
     [JDict [(''title'', JStr ''Scorecard''), (''snippet'', JStr ''India won by 5 wickets.'')],
      JDict [(''title'', JStr ''Video'')],
      JDict [(''snippet'', JStr ''Australia 250 all out.'')],
      JDict [(''snippet'', JStr ''A fourth result.'')]]"

definition example_items :: "(string \<times> json) list" where
  "example_items =
     [(''search_metadata'', JDict [(''status'', JStr ''Success'')]),
      (''organic_results'', JList example_organic)]"

definition example_results :: json where
  "example_results = JDict example_items"

text \<open>A document whose only result bears no snippet.\<close>

definition bare_items :: "(string \<times> json) list" where
  "bare_items = [(''organic_results'', JList [JDict [(''title'', JStr ''Video'')]])]"

definition example_page :: node where
  "example_page =
     Tag ''[document]'' None
       [Tag ''html'' None
          [Tag ''body'' None
             [Tag ''div'' (Some [''box'', ''Our-Services''])
                [Tag ''h1'' None [Text ''Everything we do for you''],
                 Tag ''ul'' None
                   [Tag ''li'' None [Text ''  Cloud hosting  ''],
                    Tag ''li'' None [Text ''short''],
                    Tag ''li'' None [Text ''Data engineering'']]],
              Tag ''p'' None [Text ''We offer many services to you.'']]]]"

text \<open>
  Three more pages: a services \<open>div\<close> whose only items are an \<open>h1\<close> and an \<open>h4\<close>; a
  services \<open>ul\<close> with three long items; a services \<open>div\<close> whose item starts with a
  no-break space.
\<close>

definition heading_page :: node where
  "heading_page =
     Tag ''[document]'' None
       [Tag ''body'' None
          [Tag ''div'' (Some [''services''])
             [Tag ''h1'' None [Text ''Everything we do for you''],
              Tag ''h4'' None [Text ''Managed cloud hosting'']]]]"

definition list_page :: node where
  "list_page =
     Tag ''[document]'' None
       [Tag ''body'' None
          [Tag ''ul'' (Some [''services''])
             [Tag ''li'' None [Text ''Managed cloud hosting''],
              Tag ''li'' None [Text ''Data engineering''],
              Tag ''li'' None [Text ''Security reviews'']]]]"

definition nbsp_page :: node where
  "nbsp_page =
     Tag ''[document]'' None
       [Tag ''body'' None
          [Tag ''div'' (Some [''services''])
             [Tag ''li'' None [Text (CHR 0xA0 # ''Web design'')]]]]"

text \<open>
  A page whose services \<open>section\<close> carries its class in capitals and holds a heading in
  line feeds, a paragraph with a nested tag, an item that is ten characters after a
  no-break space, and an \<open>h1\<close>; and a page without a services element, whose \<open>article\<close>
  holds three paragraphs.
\<close>

definition services_page :: node where
  "services_page =
     Tag ''[document]'' None
       [Tag ''html'' None
          [Tag ''body'' None
             [Tag ''section'' (Some [''wide'', ''SERVICE-list''])
                [Tag ''h2'' None [Text ''\<newline>  Our cloud work \<newline>''],
                 Tag ''p'' None
                   [Text '' We build '', Tag ''b'' None [Text ''data''], Text '' pipelines.''],
                 Tag ''li'' None [Text (CHR 0xA0 # ''Web design'')],
                 Tag ''h1'' None [Text ''Everything we do for you'']],
              Tag ''div'' (Some [''footer''])
                [Tag ''p'' None [Text ''We offer many services to you.'']]]]]"

definition article_page :: node where
  "article_page =
     Tag ''[document]'' None
       [Tag ''html'' None
          [Tag ''body'' None
             [Tag ''article'' None
                [Tag ''p'' None [Text ''We OFFER bespoke software to you.''],
                 Tag ''p'' None [Text ''A short offer''],
                 Tag ''p'' None [Text ''This paragraph is long and about nothing.'']],
              Tag ''p'' None [Text ''Our services are listed outside the article.'']]]]"

definition empty_world :: world where
  "empty_world = \<lparr>files = Map.empty, calls = []\<rparr>"

text \<open>A request on which every outside call succeeds, on the first of March 2024.\<close>

definition example_env :: env where
  "example_env =
     \<lparr>SERPAPI_KEY = Some ''key'',
      TEMP_DIR = ''/tmp'',
      now_date = Date 2024 3 1,
      now_stamp = ''20240301_120000'',
      serp_get = (\<lambda>params. Inr example_results),
      site_get = (\<lambda>url. Inr (200, ''<html></html>'')),
      parse_html = (\<lambda>html. Inr example_page),
      speech_create = (\<lambda>input. Inr ''Man''),
      stream_fault = None,
      upload_read = Inr ''RIFF'',
      open_write_fault = None,
      write_fault = None,
      read_fault = None,
      remove_fault = None,
      transcriptions_create = (\<lambda>audio. Inr ''hello'')\<rparr>"

section \<open>Properties of the classifier\<close>

lemma starts_with_iff: "starts_with k s \<longleftrightarrow> (\<exists>ss. s = k @ ss)"
  by (induction k s rule: starts_with.induct) auto

lemma py_in_str_iff: "py_in_str k s \<longleftrightarrow> (\<exists>ps ss. s = ps @ k @ ss)"
proof (induction s)
  case Nil
  then show ?case by auto
next
  case (Cons c cs)
  show ?case
  proof
    assume "py_in_str k (c # cs)"
    then consider "starts_with k (c # cs)" | "py_in_str k cs" by auto
    then show "\<exists>ps ss. c # cs = ps @ k @ ss"
    proof cases
      case 1
      then obtain ss where "c # cs = k @ ss" by (auto simp: starts_with_iff)
      then have "c # cs = [] @ k @ ss" by simp
      then show ?thesis by blast
    next
      case 2
      then obtain ps ss where "cs = ps @ k @ ss" using Cons.IH by auto
      then have "c # cs = (c # ps) @ k @ ss" by simp
      then show ?thesis by blast
    qed
  next
    assume "\<exists>ps ss. c # cs = ps @ k @ ss"
    then obtain ps ss where eq: "c # cs = ps @ k @ ss" by blast
    show "py_in_str k (c # cs)"
    proof (cases ps)
      case Nil
      then have "starts_with k (c # cs)" using eq by (auto simp: starts_with_iff)
      then show ?thesis by simp
    next
      case (Cons p ps')
      then have "cs = ps' @ k @ ss" using eq by simp
      then have "py_in_str k cs" using Cons.IH by blast
      then show ?thesis by simp
    qed
  qed
qed

lemma lower_append: "lower (xs @ ys) = lower xs @ lower ys"
  by (simp add: lower_def)

lemma is_cricket_query_iff:
  "is_cricket_query query \<longleftrightarrow>
     (\<exists>keyword \<in> set cricket_keywords. \<exists>ps ss. query = ps @ keyword @ ss)"
  by (simp add: is_cricket_query_def list_ex_iff py_in_str_iff)

lemma retrieve_classify:
  "retrieve env request_query w =
     (if classify request_query then sports_path env w
      else (Inr (fst (site_path env w)), snd (site_path env w)))"
  by (simp add: retrieve_def classify_def Let_def split: prod.splits)

lemma classify_iff:
  "classify q \<longleftrightarrow> (\<exists>keyword \<in> set cricket_keywords. \<exists>ps ss. lower q = ps @ keyword @ ss)"
  unfolding classify_def is_cricket_query_iff ..

lemma classify_contains:
  assumes "keyword \<in> set cricket_keywords" and "lower word = keyword"
  shows "classify (ps @ word @ ss)"
proof -
  have "lower (ps @ word @ ss) = lower ps @ lower word @ lower ss"
    by (simp only: lower_append)
  then have "lower (ps @ word @ ss) = lower ps @ keyword @ lower ss"
    by (simp only: assms(2))
  then have "\<exists>ps' ss'. lower (ps @ word @ ss) = ps' @ keyword @ ss'"
    by (intro exI)
  then show ?thesis
    unfolding classify_iff using assms(1) by (rule_tac x = keyword in bexI)
qed

lemma cricket_keywords_set:
  "set cricket_keywords =
     {''cricket'', ''sports'', ''match'', ''game'', ''wicket'', ''yesterday''}"
  by (simp add: cricket_keywords_def)

text \<open>
  Claim C5. The classifier lower-cases the query, and the request takes the sports path
  exactly when one of the six keywords cricket, sports, match, game, wicket, yesterday is a
  substring of the lower-cased query; so a query that holds a keyword in any mix of upper
  and lower case is a sports query. Every other request takes the site path.
\<close>

theorem classifier_keywords:
  "(classify request_query \<longleftrightarrow>
      (\<exists>keyword \<in> {''cricket'', ''sports'', ''match'', ''game'', ''wicket'', ''yesterday''}.
         \<exists>ps ss. lower request_query = ps @ keyword @ ss)) \<and>
   (\<forall>keyword ps word ss.
      keyword \<in> {''cricket'', ''sports'', ''match'', ''game'', ''wicket'', ''yesterday''} \<longrightarrow>
      lower word = keyword \<longrightarrow> classify (ps @ word @ ss)) \<and>
   retrieve env request_query w =
     (if classify request_query then sports_path env w
      else (Inr (fst (site_path env w)), snd (site_path env w)))"
  unfolding cricket_keywords_set [symmetric]
  by (intro conjI allI impI classify_iff classify_contains retrieve_classify)

theorem classifier_keywords_witness:
  "classify ''Who won the MATCH?'' \<and> lower ''MATCH'' = ''match''"
proof -
  have l: "lower ''MATCH'' = ''match''" by (simp add: lower_def lower_char_def)
  have k: "''match'' \<in> {''cricket'', ''sports'', ''match'', ''game'', ''wicket'', ''yesterday''}"
    by simp
  have "classify (''Who won the '' @ ''MATCH'' @ ''?'')"
    using classifier_keywords [THEN conjunct2, THEN conjunct1, rule_format, OF k l] .
  then show ?thesis using l by simp
qed

section \<open>Properties of the sports results\<close>

lemma collect_snippets_results:
  "list_all is_result rs \<Longrightarrow>
     collect_snippets rs acc = Inr (acc @ map JStr (List.map_filter snippet_of rs))"
proof (induction rs arbitrary: acc)
  case Nil
  then show ?case by (simp add: List.map_filter_simps)
next
  case (Cons r rs)
  then obtain items where r: "r = JDict items" by (cases r) auto
  show ?case
  proof (cases "map_of items ''snippet''")
    case None
    then have "''snippet'' \<notin> fst ` set items" by (simp add: map_of_eq_None_iff)
    then show ?thesis using Cons None r by (simp add: List.map_filter_simps)
  next
    case (Some v)
    then obtain s where v: "v = JStr s" using Cons.prems r by (cases v) auto
    have "''snippet'' \<in> fst ` set items"
      using Some by (metis map_of_eq_None_iff option.distinct(1))
    then show ?thesis using Cons Some r v by (simp add: List.map_filter_simps)
  qed
qed

lemma str_items_strings: "str_items (map JStr ss) = Inr ss"
  by (induction ss) auto

lemma py_join_strings: "py_join sep (map JStr ss) = Inr (join sep ss)"
  by (simp add: py_join_def str_items_strings)

lemma organic_snippets_absent:
  "map_of items ''organic_results'' = None \<Longrightarrow> organic_snippets (JDict items) = Inr None"
  by (simp add: organic_snippets_def map_of_eq_None_iff)

lemma organic_snippets_results:
  assumes "map_of items ''organic_results'' = Some (JList organic)"
    and "list_all is_result organic"
  shows "organic_snippets (JDict items) =
           Inr (if organic = [] then None
                else Some (map JStr (List.map_filter snippet_of (take 3 organic))))"
proof -
  have k: "''organic_results'' \<in> fst ` set items"
    using assms(1) by (metis map_of_eq_None_iff option.distinct(1))
  have "list_all is_result (take 3 organic)"
    using assms(2) by (auto simp: list_all_iff dest: in_set_takeD)
  then have c: "collect_snippets (take 3 organic) [] =
      Inr (map JStr (List.map_filter snippet_of (take 3 organic)))"
    by (simp add: collect_snippets_results)
  show ?thesis using k assms(1) c by (simp add: organic_snippets_def)
qed

section \<open>Properties of the speech step\<close>

lemma synthesize_text: "body_text (fst (synthesize env t w)) = Some t"
  by (simp add: synthesize_def audio_failed_def Let_def
      split: sum.splits option.splits prod.splits)

lemma synthesize_status: "status_code (fst (synthesize env t w)) = 200"
  by (simp add: synthesize_def audio_failed_def Let_def
      split: sum.splits option.splits prod.splits)

section \<open>Properties of the sports path\<close>

lemma sports_try_results:
  assumes "map_of items ''organic_results'' = Some (JList organic) \<or>
           map_of items ''organic_results'' = None \<and> organic = []"
    and "list_all is_result organic"
  shows "sports_try y (JDict items) =
           Inr (if organic = [] then no_results y
                else if List.map_filter snippet_of (take 3 organic) = []
                  then no_detailed_results y
                else here_are y @
                     join ''\<newline>\<newline>'' (List.map_filter snippet_of (take 3 organic)))"
  using assms(1)
proof
  assume "map_of items ''organic_results'' = Some (JList organic)"
  then show ?thesis
    using assms(2)
    by (simp add: sports_try_def organic_snippets_results py_join_strings)
next
  assume "map_of items ''organic_results'' = None \<and> organic = []"
  then show ?thesis
    by (simp add: sports_try_def organic_snippets_absent)
qed

lemma fallback_try_results:
  assumes "map_of items ''organic_results'' = Some (JList organic) \<or>
           map_of items ''organic_results'' = None \<and> organic = []"
    and "list_all is_result organic"
  shows "fallback_try y (JDict items) =
           Inr (if List.map_filter snippet_of (take 3 organic) = []
                then unable_at_the_moment
                else here_are y @
                     join ''\<newline>\<newline>'' (List.map_filter snippet_of (take 3 organic)))"
  using assms(1)
proof
  assume "map_of items ''organic_results'' = Some (JList organic)"
  then show ?thesis
    using assms(2)
    by (simp add: fallback_try_def organic_snippets_results py_join_strings List.map_filter_simps)
next
  assume "map_of items ''organic_results'' = None \<and> organic = []"
  then show ?thesis
    by (simp add: fallback_try_def organic_snippets_absent List.map_filter_simps)
qed

lemma serp_search_eq:
  "serp_search env y w =
     (serp_get env (cricket_params env y), w\<lparr>calls := calls w @ [SerpCall (cricket_params env y)]\<rparr>)"
  by (simp add: serp_search_def cricket_params_def Let_def)

lemma sports_path_eq:
  assumes "yesterday_of (now_date env) = Inr y"
  shows "sports_path env w =
    (Inr (case serp_get env (cricket_params env y) of
            Inl e \<Rightarrow> unable_to_fetch
          | Inr results \<Rightarrow>
              (case sports_try y results of Inl e \<Rightarrow> unable_to_fetch | Inr t \<Rightarrow> t)),
     w\<lparr>calls := calls w @ [SerpCall (cricket_params env y)]\<rparr>)"
  using assms by (simp add: sports_path_def serp_search_eq split: sum.splits)

lemma fallback_eq:
  assumes "yesterday_of (now_date env) = Inr y"
  shows "fallback env w =
    (case serp_get env (cricket_params env y) of
            Inl e \<Rightarrow> Inl ()
          | Inr results \<Rightarrow>
              (case fallback_try y results of Inl e \<Rightarrow> Inl () | Inr t \<Rightarrow> Inr t),
     w\<lparr>calls := calls w @ [SerpCall (cricket_params env y)]\<rparr>)"
  using assms by (simp add: fallback_def serp_search_eq split: sum.splits)

lemma search_sports:
  assumes "classify q" and "yesterday_of (now_date env) = Inr y"
  shows "search env q w =
     synthesize env
       (case serp_get env (cricket_params env y) of
            Inl e \<Rightarrow> unable_to_fetch
          | Inr results \<Rightarrow>
              (case sports_try y results of Inl e \<Rightarrow> unable_to_fetch | Inr t \<Rightarrow> t))
       (w\<lparr>calls := calls w @ [SerpCall (cricket_params env y)]\<rparr>)"
  using assms by (simp add: search_def retrieve_classify sports_path_eq)

lemma search_site:
  assumes "\<not> classify q"
  shows "search env q w = synthesize env (fst (site_path env w)) (snd (site_path env w))"
  using assms by (simp add: search_def retrieve_classify)

lemma search_sports_overflow:
  assumes "classify q" and "yesterday_of (now_date env) = Inl e"
  shows "search env q w = (unexpected_error e, w)"
  using assms by (simp add: search_def retrieve_classify sports_path_def)




lemma classify_cricket_score: "classify ''Cricket score?''"
  by (simp add: classify_def is_cricket_query_def cricket_keywords_def lower_def lower_char_def)

lemma example_yesterday: "yesterday_of (now_date example_env) = Inr ''February 29, 2024''"
  by (simp add: example_env_def yesterday_of_def minus_one_day_def days_in_month_def
      is_leap_def strftime_B_d_Y_def month_name_def decimal.simps digit_char_def)

section \<open>Properties of the site path\<close>

lemma site_path_fetch_raises:
  "site_get env ''https://sena.services'' = Inl e \<Longrightarrow>
     fst (site_path env w) = unable_to_access"
  by (simp add: site_path_def Let_def)

lemma site_path_parse_raises:
  "site_get env ''https://sena.services'' = Inr (200, html) \<Longrightarrow>
   parse_html env html = Inl e \<Longrightarrow>
     fst (site_path env w) = unable_to_access"
  by (simp add: site_path_def Let_def)

lemma site_path_parsed:
  "site_get env ''https://sena.services'' = Inr (200, html) \<Longrightarrow>
   parse_html env html = Inr soup \<Longrightarrow>
     fst (site_path env w) = services_text (extract_services soup)"
  by (simp add: site_path_def Let_def)

lemma site_path_fallback:
  assumes "site_get env ''https://sena.services'' = Inr (status, html)"
    and "status \<noteq> 200"
    and "yesterday_of (now_date env) = Inr y"
  shows "fst (site_path env w) =
           (case serp_get env (cricket_params env y) of
              Inl e \<Rightarrow> unable_to_access
            | Inr results \<Rightarrow>
                (case fallback_try y results of
                   Inl e \<Rightarrow> unable_to_access
                 | Inr t \<Rightarrow> t))"
  using assms
  by (simp add: site_path_def Let_def fallback_eq split: sum.splits)

lemma site_path_fallback_overflow:
  assumes "site_get env ''https://sena.services'' = Inr (status, html)"
    and "status \<noteq> 200"
    and "yesterday_of (now_date env) = Inl e"
  shows "fst (site_path env w) = unable_to_access"
  using assms
  by (simp add: site_path_def Let_def fallback_def)

lemma search_site_text:
  "\<not> classify q \<Longrightarrow> body_text (fst (search env q w)) = Some (fst (site_path env w))"
  by (simp add: search_site synthesize_text)

lemma search_site_status:
  "\<not> classify q \<Longrightarrow> status_code (fst (search env q w)) = 200"
  by (simp add: search_site synthesize_status)

lemma search_sports_text:
  assumes "classify q" and "yesterday_of (now_date env) = Inr y"
  shows "body_text (fst (search env q w)) =
     Some (case serp_get env (cricket_params env y) of
            Inl e \<Rightarrow> unable_to_fetch
          | Inr results \<Rightarrow>
              (case sports_try y results of Inl e \<Rightarrow> unable_to_fetch | Inr t \<Rightarrow> t))"
  by (simp only: search_sports [OF assms] synthesize_text)

lemma search_sports_status:
  assumes "classify q" and "yesterday_of (now_date env) = Inr y"
  shows "status_code (fst (search env q w)) = 200"
  by (simp only: search_sports [OF assms] synthesize_status)

section \<open>Failures inside the branches\<close>

lemma sports_failure_absorbed:
  assumes "classify q" and "yesterday_of (now_date env) = Inr y"
    and "serp_get env (cricket_params env y) = Inl e \<or>
         (\<exists>results pe. serp_get env (cricket_params env y) = Inr results \<and>
            sports_try y results = Inl pe)"
  shows "status_code (fst (search env q w)) = 200 \<and>
         body_text (fst (search env q w)) = Some unable_to_fetch"
proof -
  have "(case serp_get env (cricket_params env y) of
            Inl e \<Rightarrow> unable_to_fetch
          | Inr results \<Rightarrow>
              (case sports_try y results of Inl e \<Rightarrow> unable_to_fetch | Inr t \<Rightarrow> t)) =
        unable_to_fetch"
    using assms(3) by auto
  then show ?thesis
    using search_sports_text [OF assms(1,2), of w] search_sports_status [OF assms(1,2), of w]
    by simp
qed

lemma site_failure_absorbed:
  assumes "\<not> classify q"
    and "site_get env ''https://sena.services'' = Inl e \<or>
         (\<exists>html e'. site_get env ''https://sena.services'' = Inr (200, html) \<and>
            parse_html env html = Inl e') \<or>
         (\<exists>status html. site_get env ''https://sena.services'' = Inr (status, html) \<and>
            status \<noteq> 200 \<and>
            ((\<exists>e'. yesterday_of (now_date env) = Inl e') \<or>
             (\<exists>y. yesterday_of (now_date env) = Inr y \<and>
                ((\<exists>e'. serp_get env (cricket_params env y) = Inl e') \<or>
                 (\<exists>results pe. serp_get env (cricket_params env y) = Inr results \<and>
                    fallback_try y results = Inl pe)))))"
  shows "status_code (fst (search env q w)) = 200 \<and>
         body_text (fst (search env q w)) = Some unable_to_access"
proof -
  have "fst (site_path env w) = unable_to_access"
    using assms(2)
  proof (elim disjE exE conjE)
    fix e' assume "site_get env ''https://sena.services'' = Inl e"
    then show ?thesis by (rule site_path_fetch_raises)
  next
    fix html e'
    assume "site_get env ''https://sena.services'' = Inr (200, html)"
      and "parse_html env html = Inl e'"
    then show ?thesis by (rule site_path_parse_raises)
  next
    fix status html e'
    assume "site_get env ''https://sena.services'' = Inr (status, html)"
      and "status \<noteq> 200" and "yesterday_of (now_date env) = Inl e'"
    then show ?thesis by (rule site_path_fallback_overflow)
  next
    fix status html y e'
    assume "site_get env ''https://sena.services'' = Inr (status, html)"
      and "status \<noteq> 200" and "yesterday_of (now_date env) = Inr y"
      and "serp_get env (cricket_params env y) = Inl e'"
    then show ?thesis by (simp add: site_path_fallback)
  next
    fix status html y results pe
    assume "site_get env ''https://sena.services'' = Inr (status, html)"
      and "status \<noteq> 200" and "yesterday_of (now_date env) = Inr y"
      and "serp_get env (cricket_params env y) = Inr results"
      and "fallback_try y results = Inl pe"
    then show ?thesis by (simp add: site_path_fallback)
  qed
  then show ?thesis
    using search_site_text [OF assms(1), of env w] search_site_status [OF assms(1), of env w]
    by simp
qed

text \<open>
  Claim C4. A failure inside the branches of the search is absorbed. On the sports path,
  when the provider call raises, or the processing of its document raises, the response
  has status 200 and the text \<open>Unable to fetch cricket results. Please try again later.\<close>
  On the site path, when the fetch of the site raises, or the parse of the page raises, or
  anything raises in the fallback after a status other than 200, the response has status
  200 and the text \<open>Unable to access sena.services. Please try again later or visit the
  website directly.\<close> Every request on the site path is answered with status 200 and a text.
\<close>

theorem search_absorbs_failures:
  "(classify request_query \<longrightarrow> yesterday_of (now_date env) = Inr yesterday \<longrightarrow>
      (serp_get env (cricket_params env yesterday) = Inl e \<or>
       (\<exists>results pe. serp_get env (cricket_params env yesterday) = Inr results \<and>
          sports_try yesterday results = Inl pe)) \<longrightarrow>
      status_code (fst (search env request_query w)) = 200 \<and>
      body_text (fst (search env request_query w)) =
        Some ''Unable to fetch cricket results. Please try again later.'') \<and>
   (\<not> classify request_query \<longrightarrow>
      (site_get env ''https://sena.services'' = Inl e \<or>
       (\<exists>html e'. site_get env ''https://sena.services'' = Inr (200, html) \<and>
          parse_html env html = Inl e') \<or>
       (\<exists>status html. site_get env ''https://sena.services'' = Inr (status, html) \<and>
          status \<noteq> 200 \<and>
          ((\<exists>e'. yesterday_of (now_date env) = Inl e') \<or>
           (\<exists>y. yesterday_of (now_date env) = Inr y \<and>
              ((\<exists>e'. serp_get env (cricket_params env y) = Inl e') \<or>
               (\<exists>results pe. serp_get env (cricket_params env y) = Inr results \<and>
                  fallback_try y results = Inl pe)))))) \<longrightarrow>
      status_code (fst (search env request_query w)) = 200 \<and>
      body_text (fst (search env request_query w)) =
        Some ''Unable to access sena.services. Please try again later or visit the website directly.'') \<and>
   (\<not> classify request_query \<longrightarrow>
      status_code (fst (search env request_query w)) = 200 \<and>
      body_text (fst (search env request_query w)) = Some (fst (site_path env w)))"
proof (intro conjI impI)
  assume "classify request_query" and "yesterday_of (now_date env) = Inr yesterday"
    and "serp_get env (cricket_params env yesterday) = Inl e \<or>
       (\<exists>results pe. serp_get env (cricket_params env yesterday) = Inr results \<and>
          sports_try yesterday results = Inl pe)"
  from sports_failure_absorbed [OF this, of w, unfolded unable_to_fetch_def]
  show "status_code (fst (search env request_query w)) = 200"
    and "body_text (fst (search env request_query w)) =
        Some ''Unable to fetch cricket results. Please try again later.''"
    by (rule conjunct1, rule conjunct2)
next
  assume "\<not> classify request_query"
    and "site_get env ''https://sena.services'' = Inl e \<or>
       (\<exists>html e'. site_get env ''https://sena.services'' = Inr (200, html) \<and>
          parse_html env html = Inl e') \<or>
       (\<exists>status html. site_get env ''https://sena.services'' = Inr (status, html) \<and>
          status \<noteq> 200 \<and>
          ((\<exists>e'. yesterday_of (now_date env) = Inl e') \<or>
           (\<exists>y. yesterday_of (now_date env) = Inr y \<and>
              ((\<exists>e'. serp_get env (cricket_params env y) = Inl e') \<or>
               (\<exists>results pe. serp_get env (cricket_params env y) = Inr results \<and>
                  fallback_try y results = Inl pe)))))"
  from site_failure_absorbed [OF this, of w, unfolded unable_to_access_def]
  show "status_code (fst (search env request_query w)) = 200"
    and "body_text (fst (search env request_query w)) =
        Some ''Unable to access sena.services. Please try again later or visit the website directly.''"
    by (rule conjunct1, rule conjunct2)
next
  assume n: "\<not> classify request_query"
  show "status_code (fst (search env request_query w)) = 200"
    using n by (rule search_site_status)
  show "body_text (fst (search env request_query w)) = Some (fst (site_path env w))"
    using n by (rule search_site_text)
qed

theorem search_absorbs_failures_witness:
  "status_code (fst (search (example_env\<lparr>serp_get := (\<lambda>params. Inl ''Connection timed out'')\<rparr>)
       ''Cricket score?'' empty_world)) = 200 \<and>
   body_text (fst (search (example_env\<lparr>serp_get := (\<lambda>params. Inl ''Connection timed out'')\<rparr>)
       ''Cricket score?'' empty_world)) =
     Some ''Unable to fetch cricket results. Please try again later.''"
proof -
  let ?env = "example_env\<lparr>serp_get := (\<lambda>params. Inl ''Connection timed out'')\<rparr>"
  have y: "yesterday_of (now_date ?env) = Inr ''February 29, 2024''"
    using example_yesterday by simp
  have s: "serp_get ?env (cricket_params ?env ''February 29, 2024'') = Inl ''Connection timed out'' \<or>
       (\<exists>results pe. serp_get ?env (cricket_params ?env ''February 29, 2024'') = Inr results \<and>
          sports_try ''February 29, 2024'' results = Inl pe)"
    by simp
  from search_absorbs_failures [THEN conjunct1, rule_format, OF classify_cricket_score y s]
  show ?thesis .
qed

section \<open>The query on the sports path\<close>

lemma retrieve_sports_calls:
  assumes "classify q" and "yesterday_of (now_date env) = Inr y"
  shows "calls (snd (retrieve env q w)) = calls w @ [SerpCall (cricket_params env y)]"
  using assms by (simp add: retrieve_classify sports_path_eq)

text \<open>
  Claim C10. Two requests that are both classified as sports queries, served on the same
  date with the same answer of the provider, get the same text: the query reaches neither
  the provider request, which is built from the fixed template and the date of yesterday,
  nor the answer. On one and the same outside world the two whole responses are equal.
\<close>

theorem sports_answer_ignores_query:
  assumes "classify query1" and "classify query2"
    and "now_date env1 = now_date env2"
    and "\<forall>y. yesterday_of (now_date env1) = Inr y \<longrightarrow>
           serp_get env1 (cricket_params env1 y) = serp_get env2 (cricket_params env2 y)"
  shows "body_text (fst (search env1 query1 w1)) = body_text (fst (search env2 query2 w2)) \<and>
         (\<forall>y. yesterday_of (now_date env1) = Inr y \<longrightarrow>
            calls (snd (retrieve env1 query1 w1)) =
              calls w1 @
              [SerpCall \<lparr>sp_api_key = SERPAPI_KEY env1,
                         sp_q = ''cricket match results '' @ y @ '' scorecard highlights'',
                         sp_engine = ''google'', sp_num = 5\<rparr>]) \<and>
         search env1 query1 w1 = search env1 query2 w1"
proof (intro conjI allI impI)
  show "body_text (fst (search env1 query1 w1)) = body_text (fst (search env2 query2 w2))"
  proof (cases "yesterday_of (now_date env1)")
    case (Inl e)
    then have "yesterday_of (now_date env2) = Inl e" using assms(3) by simp
    then show ?thesis
      using Inl assms(1,2) by (simp add: search_sports_overflow unexpected_error_def)
  next
    case (Inr y)
    then have y2: "yesterday_of (now_date env2) = Inr y" using assms(3) by simp
    have "serp_get env1 (cricket_params env1 y) = serp_get env2 (cricket_params env2 y)"
      using assms(4) Inr by blast
    then show ?thesis
      by (simp only: search_sports_text [OF assms(1) Inr] search_sports_text [OF assms(2) y2])
  qed
next
  fix y assume y: "yesterday_of (now_date env1) = Inr y"
  show "calls (snd (retrieve env1 query1 w1)) =
          calls w1 @
          [SerpCall \<lparr>sp_api_key = SERPAPI_KEY env1,
                     sp_q = ''cricket match results '' @ y @ '' scorecard highlights'',
                     sp_engine = ''google'', sp_num = 5\<rparr>]"
    using retrieve_sports_calls [OF assms(1) y, of w1]
    by (simp add: cricket_params_def search_query_def)
next
  show "search env1 query1 w1 = search env1 query2 w1"
    using assms(1,2) by (simp add: search_def retrieve_classify)
qed

lemma classify_game: "classify ''What a GAME''"
  by (simp add: classify_def is_cricket_query_def cricket_keywords_def lower_def lower_char_def)

theorem sports_answer_ignores_query_witness:
  "search example_env ''Cricket score?'' empty_world =
   search example_env ''What a GAME'' empty_world"
proof -
  have d: "now_date example_env = now_date example_env" by simp
  have s: "\<forall>y. yesterday_of (now_date example_env) = Inr y \<longrightarrow>
           serp_get example_env (cricket_params example_env y) =
           serp_get example_env (cricket_params example_env y)"
    by simp
  from sports_answer_ignores_query [OF classify_cricket_score classify_game d s]
  show ?thesis by (rule conjunct2 [THEN conjunct2])
qed

section \<open>The fallback beside the sports path\<close>

text \<open>
  Claim C8. On the site path, when the site answers with a status other than 200 and the
  fallback search succeeds without a usable snippet, the text is the fixed message
  \<open>Unable to access sena.services at the moment...\<close>; a sports query in the same situation
  gets a no-results message for the date. The two texts differ.
\<close>

theorem fallback_without_snippets:
  assumes "\<not> classify site_query" and "classify sports_query"
    and "site_get env ''https://sena.services'' = Inr (status, html)"
    and "status \<noteq> 200"
    and "yesterday_of (now_date env) = Inr yesterday"
    and "serp_get env (cricket_params env yesterday) = Inr (JDict items)"
    and "map_of items ''organic_results'' = Some (JList organic) \<or>
         map_of items ''organic_results'' = None \<and> organic = []"
    and "list_all is_result organic"
    and "List.map_filter snippet_of (take 3 organic) = []"
  shows "body_text (fst (search env site_query w)) =
           Some ''Unable to access sena.services at the moment. Please try again later or visit the website directly.'' \<and>
         body_text (fst (search env sports_query w)) =
           Some ((if organic = [] then ''No cricket results found for ''
                  else ''No detailed cricket results found for '') @ yesterday @
                 ''. Please try searching for a different date.'') \<and>
         body_text (fst (search env site_query w)) \<noteq> body_text (fst (search env sports_query w))"
proof -
  have a: "body_text (fst (search env site_query w)) = Some unable_at_the_moment"
    using assms(6,9)
    by (simp add: search_site_text [OF assms(1)] site_path_fallback [OF assms(3,4,5)]
        fallback_try_results [OF assms(7,8)])
  have b: "body_text (fst (search env sports_query w)) =
      Some (if organic = [] then no_results yesterday else no_detailed_results yesterday)"
    using assms(6,9)
    by (simp add: search_sports_text [OF assms(2,5)] sports_try_results [OF assms(7,8)])
  have a': "body_text (fst (search env site_query w)) =
           Some ''Unable to access sena.services at the moment. Please try again later or visit the website directly.''"
    using a by (simp only: unable_at_the_moment_def)
  have b': "body_text (fst (search env sports_query w)) =
           Some ((if organic = [] then ''No cricket results found for ''
                  else ''No detailed cricket results found for '') @ yesterday @
                 ''. Please try searching for a different date.'')"
    using b by (simp add: no_results_def no_detailed_results_def)
  have c: "body_text (fst (search env site_query w)) \<noteq> body_text (fst (search env sports_query w))"
    unfolding a' b' by simp
  from a' b' c show ?thesis by (intro conjI)
qed

lemma classify_hello: "\<not> classify ''Hello there''"
  by (simp add: classify_def is_cricket_query_def cricket_keywords_def lower_def lower_char_def)

theorem fallback_without_snippets_witness:
  "body_text (fst (search
      (example_env\<lparr>serp_get := (\<lambda>params. Inr (JDict bare_items)),
                   site_get := (\<lambda>url. Inr (503, ''Service Unavailable''))\<rparr>)
      ''Hello there'' empty_world)) =
     Some ''Unable to access sena.services at the moment. Please try again later or visit the website directly.'' \<and>
   body_text (fst (search
      (example_env\<lparr>serp_get := (\<lambda>params. Inr (JDict bare_items)),
                   site_get := (\<lambda>url. Inr (503, ''Service Unavailable''))\<rparr>)
      ''Cricket score?'' empty_world)) =
     Some ''No detailed cricket results found for February 29, 2024. Please try searching for a different date.''"
proof -
  let ?env = "example_env\<lparr>serp_get := (\<lambda>params. Inr (JDict bare_items)),
                   site_get := (\<lambda>url. Inr (503, ''Service Unavailable''))\<rparr>"
  let ?organic = "[JDict [(''title'', JStr ''Video'')]]"
  have 3: "site_get ?env ''https://sena.services'' = Inr (503, ''Service Unavailable'')"
    by simp
  have 4: "(503::int) \<noteq> 200" by simp
  have 5: "yesterday_of (now_date ?env) = Inr ''February 29, 2024''"
    using example_yesterday by simp
  have 6: "serp_get ?env (cricket_params ?env ''February 29, 2024'') = Inr (JDict bare_items)"
    by simp
  have 7: "map_of bare_items ''organic_results'' = Some (JList ?organic) \<or>
         map_of bare_items ''organic_results'' = None \<and> ?organic = []"
    by (simp add: bare_items_def)
  have 8: "list_all is_result ?organic" by simp
  have 9: "List.map_filter snippet_of (take 3 ?organic) = []"
    by (simp add: List.map_filter_simps)
  from fallback_without_snippets [OF classify_hello classify_cricket_score 3 4 5 6 7 8 9,
      of empty_world]
  show ?thesis by simp
qed

text \<open>
  Claim C2, as amended. For a query that is not a sports query, when the site answers with
  a status other than 200, the search runs the steps of the sports path and gives exactly
  the text that a sports query gets on the same date from the same provider document,
  whenever one of the first three organic results of that document bears a snippet.
  (Without a usable snippet, and when the provider call raises, the two texts differ: the
  counterexample below.)
\<close>

theorem fallback_matches_sports_with_snippets:
  assumes "\<not> classify site_query" and "classify sports_query"
    and "site_get env ''https://sena.services'' = Inr (status, html)"
    and "status \<noteq> 200"
    and "yesterday_of (now_date env) = Inr yesterday"
    and "serp_get env (cricket_params env yesterday) = Inr (JDict items)"
    and "map_of items ''organic_results'' = Some (JList organic)"
    and "list_all is_result organic"
    and "List.map_filter snippet_of (take 3 organic) \<noteq> []"
  shows "body_text (fst (search env site_query w)) = body_text (fst (search env sports_query w)) \<and>
         body_text (fst (search env site_query w)) =
           Some (''Here are the cricket results from '' @ yesterday @ '':\<newline>\<newline>'' @
                 join ''\<newline>\<newline>'' (List.map_filter snippet_of (take 3 organic)))"
proof -
  have o: "organic \<noteq> []" using assms(9) by (auto simp: List.map_filter_simps)
  have m: "map_of items ''organic_results'' = Some (JList organic) \<or>
         map_of items ''organic_results'' = None \<and> organic = []"
    using assms(7) by simp
  have a: "body_text (fst (search env site_query w)) =
      Some (here_are yesterday @
            join ''\<newline>\<newline>'' (List.map_filter snippet_of (take 3 organic)))"
    using assms(6,9)
    by (simp add: search_site_text [OF assms(1)] site_path_fallback [OF assms(3,4,5)]
        fallback_try_results [OF m assms(8)])
  have b: "body_text (fst (search env sports_query w)) =
      Some (here_are yesterday @
            join ''\<newline>\<newline>'' (List.map_filter snippet_of (take 3 organic)))"
    using assms(6,9) o
    by (simp add: search_sports_text [OF assms(2,5)] sports_try_results [OF m assms(8)])
  have a': "body_text (fst (search env site_query w)) =
           Some (''Here are the cricket results from '' @ yesterday @ '':\<newline>\<newline>'' @
                 join ''\<newline>\<newline>'' (List.map_filter snippet_of (take 3 organic)))"
    using a by (simp add: here_are_def)
  have e: "body_text (fst (search env site_query w)) = body_text (fst (search env sports_query w))"
    by (simp only: a b)
  from e a' show ?thesis by (intro conjI)
qed

theorem fallback_matches_sports_with_snippets_witness:
  "body_text (fst (search (example_env\<lparr>site_get := (\<lambda>url. Inr (404, ''Not Found''))\<rparr>)
      ''Hello there'' empty_world)) =
   body_text (fst (search (example_env\<lparr>site_get := (\<lambda>url. Inr (404, ''Not Found''))\<rparr>)
      ''Cricket score?'' empty_world))"
proof -
  let ?env = "example_env\<lparr>site_get := (\<lambda>url. Inr (404, ''Not Found''))\<rparr>"
  have 3: "site_get ?env ''https://sena.services'' = Inr (404, ''Not Found'')"
    by simp
  have 4: "(404::int) \<noteq> 200" by simp
  have 5: "yesterday_of (now_date ?env) = Inr ''February 29, 2024''"
    using example_yesterday by simp
  have 6: "serp_get ?env (cricket_params ?env ''February 29, 2024'') = Inr (JDict example_items)"
    by (simp add: example_env_def example_results_def)
  have 7: "map_of example_items ''organic_results'' = Some (JList example_organic)"
    by (simp add: example_items_def)
  have 8: "list_all is_result example_organic"
    by (simp add: example_organic_def)
  have 9: "List.map_filter snippet_of (take 3 example_organic) \<noteq> []"
    by (simp add: example_organic_def List.map_filter_simps)
  from fallback_matches_sports_with_snippets
    [OF classify_hello classify_cricket_score 3 4 5 6 7 8 9, of empty_world]
  show ?thesis by (rule conjunct1)
qed

text \<open>
  The claim as it was stated fails when the provider call raises: after a status 503 of
  the site, the site path answers with its own unable-to-access message, the sports path
  with the unable-to-fetch message.
\<close>

theorem fallback_differs_on_provider_error:
  "\<not> classify ''Hello there'' \<and> classify ''Cricket score?'' \<and>
   site_get (example_env\<lparr>serp_get := (\<lambda>params. Inl ''Connection timed out''),
                        site_get := (\<lambda>url. Inr (503, ''Service Unavailable''))\<rparr>)
     ''https://sena.services'' = Inr (503, ''Service Unavailable'') \<and>
   body_text (fst (search
      (example_env\<lparr>serp_get := (\<lambda>params. Inl ''Connection timed out''),
                   site_get := (\<lambda>url. Inr (503, ''Service Unavailable''))\<rparr>)
      ''Hello there'' empty_world)) =
     Some ''Unable to access sena.services. Please try again later or visit the website directly.'' \<and>
   body_text (fst (search
      (example_env\<lparr>serp_get := (\<lambda>params. Inl ''Connection timed out''),
                   site_get := (\<lambda>url. Inr (503, ''Service Unavailable''))\<rparr>)
      ''Cricket score?'' empty_world)) =
     Some ''Unable to fetch cricket results. Please try again later.'' \<and>
   body_text (fst (search
      (example_env\<lparr>serp_get := (\<lambda>params. Inl ''Connection timed out''),
                   site_get := (\<lambda>url. Inr (503, ''Service Unavailable''))\<rparr>)
      ''Hello there'' empty_world)) \<noteq>
   body_text (fst (search
      (example_env\<lparr>serp_get := (\<lambda>params. Inl ''Connection timed out''),
                   site_get := (\<lambda>url. Inr (503, ''Service Unavailable''))\<rparr>)
      ''Cricket score?'' empty_world))"
proof -
  let ?env = "example_env\<lparr>serp_get := (\<lambda>params. Inl ''Connection timed out''),
                   site_get := (\<lambda>url. Inr (503, ''Service Unavailable''))\<rparr>"
  have 3: "site_get ?env ''https://sena.services'' = Inr (503, ''Service Unavailable'')"
    by simp
  have 4: "(503::int) \<noteq> 200" by simp
  have 5: "yesterday_of (now_date ?env) = Inr ''February 29, 2024''"
    using example_yesterday by simp
  have a: "body_text (fst (search ?env ''Hello there'' empty_world)) =
     Some ''Unable to access sena.services. Please try again later or visit the website directly.''"
    by (simp add: search_site_text [OF classify_hello] site_path_fallback [OF 3 4 5]
        unable_to_access_def)
  have b: "body_text (fst (search ?env ''Cricket score?'' empty_world)) =
     Some ''Unable to fetch cricket results. Please try again later.''"
    by (simp add: search_sports_text [OF classify_cricket_score 5] unable_to_fetch_def)
  have c: "body_text (fst (search ?env ''Hello there'' empty_world)) \<noteq>
     body_text (fst (search ?env ''Cricket score?'' empty_world))"
    unfolding a b by simp
  from classify_hello classify_cricket_score 3 a b c show ?thesis by (intro conjI)
qed

section \<open>The speech of the answer\<close>

lemma synthesize_failed:
  assumes "(\<exists>e. speech_create env t = Inl e) \<or> stream_fault env \<noteq> None \<or>
           read_fault env \<noteq> None \<or> remove_fault env \<noteq> None"
  shows "fst (synthesize env t w) = audio_failed t"
  using assms
  by (auto simp: synthesize_def stream_to_file_def read_file_def os_remove_def Let_def
      split: sum.splits option.splits prod.splits)

lemma synthesize_audio:
  assumes "body_audio (fst (synthesize env t w)) \<noteq> None"
  shows "\<exists>audio. speech_create env t = Inr audio \<and> stream_fault env = None \<and>
           read_fault env = None \<and> remove_fault env = None \<and>
           body_audio (fst (synthesize env t w)) = Some (b64encode audio) \<and>
           body_error (fst (synthesize env t w)) = None"
  using assms
  by (auto simp: synthesize_def stream_to_file_def read_file_def os_remove_def Let_def
      audio_failed_def
      split: sum.splits option.splits prod.splits if_splits)

lemma synthesize_error_iff:
  "body_error (fst (synthesize env t w)) = Some ''Failed to generate audio response'' \<longleftrightarrow>
   body_audio (fst (synthesize env t w)) = None"
  by (auto simp: synthesize_def stream_to_file_def read_file_def os_remove_def Let_def
      audio_failed_def
      split: sum.splits option.splits prod.splits if_splits)

lemma search_retrieved:
  assumes "fst (retrieve env q w) = Inr t"
  shows "search env q w = synthesize env t (snd (retrieve env q w))"
proof (cases "retrieve env q w")
  case (Pair r w1)
  then show ?thesis using assms by (simp add: search_def)
qed

text \<open>
  Claim C7. When the text has been retrieved and the speech step fails (the synthesis
  raises, or writing, reading back or removing the audio file raises), the response has
  status 200, carries the retrieved text, no audio, and the error
  \<open>Failed to generate audio response\<close>. A response carries audio only when the synthesis
  and the file steps succeeded, and then it is the base64 text of the synthesised audio.
\<close>

theorem speech_failure_keeps_text:
  assumes "fst (retrieve env request_query w) = Inr response_text"
  shows "status_code (fst (search env request_query w)) = 200 \<and>
         body_text (fst (search env request_query w)) = Some response_text \<and>
         (((\<exists>e. speech_create env response_text = Inl e) \<or> stream_fault env \<noteq> None \<or>
           read_fault env \<noteq> None \<or> remove_fault env \<noteq> None) \<longrightarrow>
            fst (search env request_query w) =
              \<lparr>status_code = 200, body_text = Some response_text, body_audio = None,
               body_error = Some ''Failed to generate audio response''\<rparr>) \<and>
         (body_audio (fst (search env request_query w)) \<noteq> None \<longrightarrow>
            (\<exists>audio. speech_create env response_text = Inr audio \<and>
               stream_fault env = None \<and> read_fault env = None \<and> remove_fault env = None \<and>
               body_audio (fst (search env request_query w)) = Some (b64encode audio) \<and>
               body_error (fst (search env request_query w)) = None)) \<and>
         (body_error (fst (search env request_query w)) =
            Some ''Failed to generate audio response'' \<longleftrightarrow>
          body_audio (fst (search env request_query w)) = None)"
  unfolding search_retrieved [OF assms]
  by (intro conjI impI synthesize_status synthesize_text synthesize_audio synthesize_error_iff
      synthesize_failed [unfolded audio_failed_def])

theorem speech_failure_keeps_text_witness:
  "fst (search (example_env\<lparr>speech_create := (\<lambda>input. Inl ''Rate limit reached'')\<rparr>)
        ''Cricket score?'' empty_world) =
     \<lparr>status_code = 200,
      body_text = Some ''Here are the cricket results from February 29, 2024:\<newline>\<newline>India won by 5 wickets.\<newline>\<newline>Australia 250 all out.'',
      body_audio = None,
      body_error = Some ''Failed to generate audio response''\<rparr>"
proof -
  let ?env = "example_env\<lparr>speech_create := (\<lambda>input. Inl ''Rate limit reached'')\<rparr>"
  let ?t = "''Here are the cricket results from February 29, 2024:\<newline>\<newline>India won by 5 wickets.\<newline>\<newline>Australia 250 all out.''"
  have y: "yesterday_of (now_date ?env) = Inr ''February 29, 2024''"
    using example_yesterday by simp
  have s: "serp_get ?env (cricket_params ?env ''February 29, 2024'') = Inr (JDict example_items)"
    by (simp add: example_env_def example_results_def)
  have m: "map_of example_items ''organic_results'' = Some (JList example_organic) \<or>
      map_of example_items ''organic_results'' = None \<and> example_organic = []"
    by (simp add: example_items_def)
  have r: "list_all is_result example_organic"
    by (simp add: example_organic_def)
  have t: "sports_try ''February 29, 2024'' (JDict example_items) = Inr ?t"
    unfolding sports_try_results [OF m r]
    by (simp add: example_organic_def List.map_filter_simps here_are_def)
  have 1: "fst (retrieve ?env ''Cricket score?'' empty_world) = Inr ?t"
    using s t by (simp add: retrieve_classify classify_cricket_score sports_path_eq [OF y])
  have 2: "(\<exists>e. speech_create ?env ?t = Inl e) \<or> stream_fault ?env \<noteq> None \<or>
           read_fault ?env \<noteq> None \<or> remove_fault ?env \<noteq> None"
    by simp
  from speech_failure_keeps_text [OF 1, THEN conjunct2, THEN conjunct2, THEN conjunct1,
      rule_format, OF 2]
  show ?thesis .
qed

section \<open>The transcription endpoint and its temporary file\<close>

lemma save_upload_empty:
  assumes "upload_read env = Inr []"
  shows "save_upload env temp_path w =
    (case open_write_fault env of
       Some e \<Rightarrow> (Some e, w)
     | None \<Rightarrow> (Some ''Empty file received'', w\<lparr>files := (files w)(temp_path \<mapsto> [])\<rparr>))"
  using assms by (simp add: save_upload_def Let_def split: option.splits)

text \<open>
  Claim C9. A transcription request whose upload is empty is answered with status 500 and
  an error message that says so (\<open>Error saving file: Empty file received\<close>, or the message
  of the failure to open the temporary file, which comes first), and no call to the
  transcription provider is made for it.
\<close>

theorem empty_upload_rejected:
  assumes "upload_read env = Inr []"
  shows "status_code (fst (transcribe_audio env w)) = 500 \<and>
         body_error (fst (transcribe_audio env w)) =
           Some (''Error saving file: '' @
             (case open_write_fault env of
                None \<Rightarrow> ''Empty file received''
              | Some e \<Rightarrow> e)) \<and>
         body_text (fst (transcribe_audio env w)) = None \<and>
         calls (snd (transcribe_audio env w)) = calls w"
  by (simp add: transcribe_audio_def Let_def save_upload_empty [OF assms] failure_def
      split: option.splits)

theorem empty_upload_rejected_witness:
  "status_code (fst (transcribe_audio (example_env\<lparr>upload_read := Inr []\<rparr>) empty_world)) = 500 \<and>
   body_error (fst (transcribe_audio (example_env\<lparr>upload_read := Inr []\<rparr>) empty_world)) =
     Some ''Error saving file: Empty file received'' \<and>
   calls (snd (transcribe_audio (example_env\<lparr>upload_read := Inr []\<rparr>) empty_world)) = []"
proof -
  have u: "upload_read (example_env\<lparr>upload_read := Inr []\<rparr>) = Inr []" by simp
  from empty_upload_rejected [OF u, of empty_world]
  show ?thesis by (simp add: example_env_def empty_world_def)
qed

text \<open>
  Claim C1 says that no temporary file is left behind on any exit route. The clean-up of
  the transcription endpoint is the \<open>finally\<close> of its second \<open>try\<close> only, so the file that
  \<open>open(temp_path, 'wb')\<close> created is still there when the first \<open>try\<close> returns: after an
  empty upload the empty file remains. In the search endpoint \<open>os.remove\<close> is the last
  statement of the \<open>try\<close> body, so the audio file remains when reading it back raises.
\<close>

theorem temporary_files_left_behind:
  "status_code (fst (transcribe_audio (example_env\<lparr>upload_read := Inr []\<rparr>) empty_world)) = 500 \<and>
   files (snd (transcribe_audio (example_env\<lparr>upload_read := Inr []\<rparr>) empty_world))
     ''/tmp/temp_audio_20240301_120000.wav'' = Some [] \<and>
   body_audio (fst (search (example_env\<lparr>read_fault := Some ''Input/output error''\<rparr>)
     ''Hello there'' empty_world)) = None \<and>
   files (snd (search (example_env\<lparr>read_fault := Some ''Input/output error''\<rparr>)
     ''Hello there'' empty_world)) ''/tmp/response_20240301_120000.mp3'' = Some ''Man''"
proof -
  have p: "path_join ''/tmp'' ''temp_audio_20240301_120000.wav'' =
      ''/tmp/temp_audio_20240301_120000.wav''"
    by (simp add: path_join_def)
  have q: "path_join ''/tmp'' ''response_20240301_120000.mp3'' =
      ''/tmp/response_20240301_120000.mp3''"
    by (simp add: path_join_def)
  have a: "status_code (fst (transcribe_audio (example_env\<lparr>upload_read := Inr []\<rparr>) empty_world)) = 500"
    by (simp add: transcribe_audio_def Let_def save_upload_def failure_def example_env_def)
  have b: "files (snd (transcribe_audio (example_env\<lparr>upload_read := Inr []\<rparr>) empty_world))
     ''/tmp/temp_audio_20240301_120000.wav'' = Some []"
    using p
    by (simp add: transcribe_audio_def Let_def save_upload_def failure_def example_env_def
        empty_world_def)
  have s: "search (example_env\<lparr>read_fault := Some ''Input/output error''\<rparr>) ''Hello there'' empty_world =
     synthesize (example_env\<lparr>read_fault := Some ''Input/output error''\<rparr>)
       (fst (site_path (example_env\<lparr>read_fault := Some ''Input/output error''\<rparr>) empty_world))
       (snd (site_path (example_env\<lparr>read_fault := Some ''Input/output error''\<rparr>) empty_world))"
    by (rule search_site [OF classify_hello])
  have c: "body_audio (fst (search (example_env\<lparr>read_fault := Some ''Input/output error''\<rparr>)
     ''Hello there'' empty_world)) = None"
    unfolding s
    by (simp add: synthesize_def Let_def stream_to_file_def read_file_def audio_failed_def
        example_env_def)
  have d: "files (snd (search (example_env\<lparr>read_fault := Some ''Input/output error''\<rparr>)
     ''Hello there'' empty_world)) ''/tmp/response_20240301_120000.mp3'' = Some ''Man''"
    unfolding s using q
    by (simp add: synthesize_def Let_def stream_to_file_def read_file_def audio_failed_def
        example_env_def)
  from a b c d show ?thesis by (intro conjI)
qed

text \<open>
  What the clean-up does achieve: once the upload has been saved, the temporary file is
  gone when the request returns, whether the transcription succeeded or raised, as long as
  \<open>os.remove\<close> itself does not raise.
\<close>

lemma transcribe_cleans_up_after_save:
  assumes "save_upload env (path_join (TEMP_DIR env) (''temp_audio_'' @ now_stamp env @ ''.wav'')) w
             = (None, w1)"
    and "remove_fault env = None"
  shows "files (snd (transcribe_audio env w))
           (path_join (TEMP_DIR env) (''temp_audio_'' @ now_stamp env @ ''.wav'')) = None"
  using assms
  by (auto simp: transcribe_audio_def Let_def transcribe_file_def clean_up_def os_remove_def
      read_file_def split: sum.splits option.splits prod.splits)

section \<open>Properties of the extraction\<close>

lemma items_loop_eq:
  "items_loop items services =
     services @ filter (\<lambda>t. 10 < length t) (map get_text_strip items)"
  by (induction items arbitrary: services) (auto simp: Let_def)

lemma sections_loop_eq:
  "sections_loop sections services =
     services @
     concat (map (\<lambda>section. filter (\<lambda>t. 10 < length t)
                    (map get_text_strip (find_all [''h2'', ''h3'', ''li'', ''p''] section)))
               sections)"
  by (induction sections arbitrary: services) (simp_all add: items_loop_eq)

lemma paragraphs_loop_eq:
  "paragraphs_loop ps services =
     services @
     filter (\<lambda>t. 20 < length t \<and>
                 (py_in_str ''service'' (lower t) \<or> py_in_str ''offer'' (lower t)))
       (map get_text_strip ps)"
  by (induction ps arbitrary: services) (auto simp: Let_def)

lemma services_contains_service:
  assumes "py_in_str ''services'' s"
  shows "py_in_str ''service'' s"
proof -
  obtain ps ss where "s = ps @ ''services'' @ ss"
    using assms unfolding py_in_str_iff by blast
  then have "s = ps @ ''service'' @ (''s'' @ ss)" by simp
  then show ?thesis unfolding py_in_str_iff by (intro exI)
qed

lemma py_in_str_nonempty:
  assumes "py_in_str (k # ks) (lower x)"
  shows "x \<noteq> []"
proof
  assume "x = []"
  then have "py_in_str (k # ks) []" using assms by (simp add: lower_def)
  then show False by simp
qed

lemma service_class_iff:
  "service_class (Some x) \<longleftrightarrow> (\<exists>ps ss. lower x = ps @ ''service'' @ ss)"
proof -
  have "service_class (Some x) \<longleftrightarrow> py_in_str ''service'' (lower x)"
    using services_contains_service [of "lower x"] py_in_str_nonempty [of _ _ x]
    by (simp only: service_class.simps) blast
  then show ?thesis by (simp only: py_in_str_iff)
qed

lemma class_matches_service:
  "class_matches service_class (Tag n c kids) \<longleftrightarrow>
     (\<exists>vs. c = Some vs \<and>
        (\<exists>v \<in> set (vs @ [join '' '' vs]). \<exists>ps ss. lower v = ps @ ''service'' @ ss))"
proof (cases c)
  case None
  then show ?thesis by simp
next
  case (Some vs)
  have "class_matches service_class (Tag n (Some vs) kids) \<longleftrightarrow>
      (\<exists>v \<in> set (vs @ [join '' '' vs]). service_class (Some v))"
    by (auto simp: list_ex_iff)
  then show ?thesis using Some by (simp only: service_class_iff) simp
qed

lemma extract_services_eq:
  "extract_services soup =
     (let structured =
            concat (map (\<lambda>section. filter (\<lambda>t. 10 < length t)
                           (map get_text_strip
                              (find_all [''h2'', ''h3'', ''li'', ''p''] section)))
                      (filter (\<lambda>n. is_named [''section'', ''div''] n \<and>
                                    class_matches service_class n)
                         (descendants soup)));
          paragraphs =
            (case main_content soup of
               None \<Rightarrow> []
             | Some m \<Rightarrow>
                 filter (\<lambda>t. 20 < length t \<and>
                             (py_in_str ''service'' (lower t) \<or> py_in_str ''offer'' (lower t)))
                   (map get_text_strip (find_all [''p''] m)))
      in if structured \<noteq> [] then structured
         else if paragraphs \<noteq> [] then paragraphs
         else default_services)"
proof -
  define structured where
    "structured =
       concat (map (\<lambda>section. filter (\<lambda>t. 10 < length t)
                           (map get_text_strip
                              (find_all [''h2'', ''h3'', ''li'', ''p''] section)))
                      (filter (\<lambda>n. is_named [''section'', ''div''] n \<and>
                                    class_matches service_class n)
                         (descendants soup)))"
  define P where
    "P = (\<lambda>m. filter (\<lambda>t. 20 < length t \<and>
                             (py_in_str ''service'' (lower t) \<or> py_in_str ''offer'' (lower t)))
                   (map get_text_strip (find_all [''p''] m)))"
  have s1: "sections_loop (find_all_class [''section'', ''div''] service_class soup) [] =
      structured"
    by (simp add: sections_loop_eq find_all_class_def structured_def)
  have p1: "paragraphs_loop (find_all [''p''] m) [] = P m" for m
    by (simp add: paragraphs_loop_eq P_def)
  have h: "extract_services soup =
      (if structured \<noteq> [] then structured
       else if (case main_content soup of None \<Rightarrow> [] | Some m \<Rightarrow> P m) \<noteq> []
         then (case main_content soup of None \<Rightarrow> [] | Some m \<Rightarrow> P m)
       else default_services)"
    unfolding extract_services_def Let_def s1
    by (cases "structured = []"; cases "main_content soup"; simp add: p1)
  show ?thesis
    unfolding Let_def using h [unfolded structured_def P_def] .
qed

lemma main_content_eq:
  "main_content soup =
     (case find_all [''main''] soup of
        m # ms \<Rightarrow> Some m
      | [] \<Rightarrow>
          (case find_all [''article''] soup of
             a # as \<Rightarrow> Some a
           | [] \<Rightarrow> (case find_all [''body''] soup of b # bs \<Rightarrow> Some b | [] \<Rightarrow> None)))"
  by (simp add: main_content_def find_first_def split: list.splits)

section \<open>The calendar step against the day count\<close>








lemma minus_one_day_overflow: "minus_one_day (Date 1 1 1) = Inl ''date value out of range''"
  by (simp add: minus_one_day_def)


section \<open>The written date\<close>









section \<open>The text of the sports path\<close>



end
